theory Spec2Isabelle
  imports Main
begin

section \<open>Values, strings and dictionaries\<close>

text \<open>
  Python strings are modelled as HOL strings, one \<^typ>\<open>char\<close> per code point; the model
  covers code points below 256. The character classes below are the ones Python uses on
  that range: \<open>str.strip\<close>, \<open>str.isspace\<close> and the regular expression class \<open>\s\<close> agree on
  the white space characters, \<open>\d\<close> is the ten ASCII digits, and \<open>str.lower\<close> maps only
  the ASCII capitals to ASCII letters.
\<close>

definition whitespace :: "char list" where
  "whitespace = [CHR 0x09, CHR 0x0A, CHR 0x0B, CHR 0x0C, CHR 0x0D,
                 CHR 0x1C, CHR 0x1D, CHR 0x1E, CHR 0x1F, CHR 0x20, CHR 0x85, CHR 0xA0]"

definition is_space :: "char \<Rightarrow> bool" where
  "is_space c = (c \<in> set whitespace)"

definition is_digit :: "char \<Rightarrow> bool" where
  "is_digit c = (c \<in> set ''0123456789'')"

definition is_upper :: "char \<Rightarrow> bool" where
  "is_upper c = (c \<in> set ''ABCDEFGHIJKLMNOPQRSTUVWXYZ'')"

definition is_lower :: "char \<Rightarrow> bool" where
  "is_lower c = (c \<in> set ''abcdefghijklmnopqrstuvwxyz'')"

definition lower_char :: "char \<Rightarrow> char" where
  "lower_char c =
     (case map_of (zip ''ABCDEFGHIJKLMNOPQRSTUVWXYZ'' ''abcdefghijklmnopqrstuvwxyz'') c of
        Some d \<Rightarrow> d | None \<Rightarrow> c)"

text \<open>
  \<open>str.upper\<close>: the ASCII letters, and the sharp s (code point 223) which becomes two
  capitals. Every other letter below 256 goes to a letter outside \<open>A..Z\<close> in Python and is
  left as it is here; the only reader of the result is the column letter lookup, which
  rejects both.
\<close>

definition upper_char :: "char \<Rightarrow> string" where
  "upper_char c =
     (if c = CHR 0xDF then ''SS''
      else case map_of (zip ''abcdefghijklmnopqrstuvwxyz'' ''ABCDEFGHIJKLMNOPQRSTUVWXYZ'') c of
        Some d \<Rightarrow> [d] | None \<Rightarrow> [c])"

definition lower :: "string \<Rightarrow> string" where
  "lower s = map lower_char s"

definition upper :: "string \<Rightarrow> string" where
  "upper s = concat (map upper_char s)"

definition strip :: "string \<Rightarrow> string" where
  "strip s = rev (dropWhile is_space (rev (dropWhile is_space s)))"

text \<open>\<open>str(i)\<close> for a natural number: its decimal digits.\<close>

fun str_nat :: "nat \<Rightarrow> string" where
  "str_nat n = (if n < 10 then [''0123456789'' ! n]
                else str_nat (n div 10) @ [''0123456789'' ! (n mod 10)])"

declare str_nat.simps [simp del]

text \<open>
  A Python value of a flattened run record: \<open>None\<close>, a string, or a structured value
  (dict, list or tuple), which is represented by the text
  \<open>json.dumps(v, ensure_ascii=False)\<close> produces for it. The records the pipelines build
  hold nothing else (no numbers, no dates), and other values are outside the model.
\<close>

datatype pyval = PNone | PStr string | PStruct string

text \<open>
  A dict with string keys, in insertion order. \<open>d[k] = v\<close> keeps the position of a key
  that is already there and appends a new key at the end.
\<close>

type_synonym pydict = "(string \<times> pyval) list"

definition dict_keys :: "pydict \<Rightarrow> string list" where
  "dict_keys d = map fst d"

fun dict_set :: "pydict \<Rightarrow> string \<Rightarrow> pyval \<Rightarrow> pydict" where
  "dict_set [] k v = [(k, v)]"
| "dict_set ((k', v') # d) k v = (if k' = k then (k, v) # d else (k', v') # dict_set d k v)"



section \<open>Worksheets\<close>

text \<open>
  A worksheet in memory is the list of its rows, row \<open>r\<close> of the spreadsheet at index
  \<open>r - 1\<close>; a row is the list of its cells, column \<open>c\<close> at index \<open>c - 1\<close>. A cell in the
  list exists, with the value \<open>None\<close> or a string; a cell beyond the end of its row, or in
  a row beyond the last, does not exist and reads as \<open>None\<close>. The length of the list is
  the row the next \<open>ws.append\<close> follows.
\<close>

type_synonym sheet = "pyval list list"

datatype error =
    FileNotFoundError string
  | ValueError string
  | AttributeError
  | IndexError
  | IllegalCharacterError

subsection \<open>Storing a value in a cell\<close>






subsection \<open>Reading and writing cells\<close>

definition pad :: "nat \<Rightarrow> pyval list \<Rightarrow> pyval list" where
  "pad n row = row @ replicate (n - length row) PNone"

definition max_column :: "sheet \<Rightarrow> nat" where
  "max_column ws = foldr (\<lambda>row m. max (length row) m) ws 1"

text \<open>\<open>ws.max_row\<close>: the last row that has a cell, and 1 for a sheet without cells.\<close>

definition max_row :: "sheet \<Rightarrow> nat" where
  "max_row ws = max 1 (length (dropWhile (\<lambda>row. row = []) (rev ws)))"

definition cell_value :: "sheet \<Rightarrow> nat \<Rightarrow> nat \<Rightarrow> pyval" where
  "cell_value ws r c =
     (if 1 \<le> r \<and> r \<le> length ws \<and> 1 \<le> c \<and> c \<le> length (ws ! (r - 1))
      then ws ! (r - 1) ! (c - 1) else PNone)"

text \<open>
  \<open>ws.cell(row=r, column=c, value=v)\<close> (rows and columns count from 1): the cell is created
  when it is missing, and a value other than \<open>None\<close> is bound and stored in it.
  \<open>put_cell\<close> is the write of a value that is bound already.
\<close>

definition put_in_row :: "pyval list \<Rightarrow> nat \<Rightarrow> pyval \<Rightarrow> pyval list" where
  "put_in_row row c v = (if v = PNone then pad c row else (pad c row)[c - 1 := v])"

definition put_cell :: "sheet \<Rightarrow> nat \<Rightarrow> nat \<Rightarrow> pyval \<Rightarrow> sheet" where
  "put_cell ws r c v =
     (let ws' = ws @ replicate (r - length ws) []
      in ws'[r - 1 := put_in_row (ws' ! (r - 1)) c v])"






subsection \<open>What a saved file holds\<close>

text \<open>
  \<open>wb.save\<close> does not write a cell whose value is \<open>None\<close>, and a cell holding the empty
  string comes back from \<open>load_workbook\<close> as a cell with the value \<open>None\<close>. So the sheet a
  saved file gives back keeps each row up to its last cell with a value, with the empty
  strings read as \<open>None\<close>, and keeps the rows up to the last row that has a cell. The
  file store below holds, for each path, the workbook \<open>load_workbook\<close> returns.
\<close>

definition blank :: "pyval \<Rightarrow> pyval" where
  "blank v = (if v = PStr [] then PNone else v)"

definition strip_none :: "pyval list \<Rightarrow> pyval list" where
  "strip_none row = rev (dropWhile (\<lambda>v. v = PNone) (rev row))"

definition stored_row :: "pyval list \<Rightarrow> pyval list" where
  "stored_row row = map blank (strip_none row)"

definition stored_sheet :: "sheet \<Rightarrow> sheet" where
  "stored_sheet ws = rev (dropWhile (\<lambda>row. row = []) (rev (map stored_row ws)))"

section \<open>Workbooks\<close>

text \<open>
  A workbook is its sheets in tab order, each with its title, and the index of the active
  sheet. A file store maps a path to the workbook saved there.
\<close>

record workbook =
  sheets :: "(string \<times> sheet) list"
  active :: nat

type_synonym xfs = "string \<rightharpoonup> workbook"

definition sheetnames :: "workbook \<Rightarrow> string list" where
  "sheetnames wb = map fst (sheets wb)"

definition stored_workbook :: "workbook \<Rightarrow> workbook" where
  "stored_workbook wb = wb\<lparr>sheets := map (\<lambda>p. (fst p, stored_sheet (snd p))) (sheets wb)\<rparr>"

definition save_workbook :: "xfs \<Rightarrow> string \<Rightarrow> workbook \<Rightarrow> xfs" where
  "save_workbook fs path wb = fs(path \<mapsto> stored_workbook wb)"

text \<open>\<open>del wb[name]\<close> removes the first sheet with that title.\<close>

fun remove_sheet :: "string \<Rightarrow> (string \<times> sheet) list \<Rightarrow> (string \<times> sheet) list" where
  "remove_sheet name [] = []"
| "remove_sheet name ((n, s) # rest) = (if n = name then rest else (n, s) # remove_sheet name rest)"


subsection \<open>The title of a new sheet\<close>

text \<open>
  \<open>wb.create_sheet(title)\<close> gives the new sheet the title asked for unless a sheet has that
  title already, letter case ignored. Then the library's \<open>avoid_duplicate_name\<close> joins the
  titles with commas, finds every place where the title occurs (letter case ignored)
  followed by digits, and appends to the title the highest of these numbers plus one.
\<close>

fun join_commas :: "string list \<Rightarrow> string" where
  "join_commas [] = []"
| "join_commas [n] = n"
| "join_commas (n # ns) = n @ '','' @ join_commas ns"

definition starts_with_ci :: "string \<Rightarrow> string \<Rightarrow> bool" where
  "starts_with_ci p s = (length p \<le> length s \<and> lower (take (length p) s) = lower p)"

definition nat_of_digits :: "string \<Rightarrow> nat" where
  "nat_of_digits ds = foldl (\<lambda>a c. a * 10 + (of_char c - 48)) 0 ds"

text \<open>
  The numbers \<open>findall\<close> collects for the pattern \<open>(title)(\d*),?\<close>: the scan goes from left
  to right, and after a match it goes on behind the match (\<open>skip\<close> characters are still
  to be passed over).
\<close>

fun title_counts :: "string \<Rightarrow> nat \<Rightarrow> string \<Rightarrow> nat list" where
  "title_counts title skip [] = []"
| "title_counts title (Suc k) (c # cs) = title_counts title k cs"
| "title_counts title 0 (c # cs) =
     (if starts_with_ci title (c # cs) then
        (let rest = drop (length title) (c # cs);
             ds = takeWhile is_digit rest;
             after = drop (length ds) rest;
             comma = (if after \<noteq> [] \<and> hd after = CHR '','' then 1 else 0);
             consumed = length title + length ds + comma
         in (if ds \<noteq> [] then [nat_of_digits ds] else []) @ title_counts title (consumed - 1) cs)
      else title_counts title 0 cs)"

definition avoid_duplicate_name :: "string list \<Rightarrow> string \<Rightarrow> string" where
  "avoid_duplicate_name names title =
     (if list_ex (\<lambda>n. lower n = lower title) names
      then title @ str_nat (foldr max (title_counts title 0 (join_commas names)) 0 + 1)
      else title)"

section \<open>Column projection\<close>

definition column_index_from_string :: "string \<Rightarrow> nat option" where
  "column_index_from_string s =
     (if 1 \<le> length s \<and> length s \<le> 3 \<and> list_all is_upper s
      then Some (foldl (\<lambda>a c. a * 26 + (of_char c - 64)) 0 s)
      else None)"

text \<open>A token of a column layout: \<open>None\<close> or a string.\<close>

type_synonym token = "string option"

definition is_blank :: "token \<Rightarrow> bool" where
  "is_blank tok = (case tok of None \<Rightarrow> True | Some s \<Rightarrow> lower (strip s) = ''blank column'')"

text \<open>\<open>str(token)\<close>.\<close>

definition token_str :: "token \<Rightarrow> string" where
  "token_str tok = (case tok of None \<Rightarrow> ''None'' | Some s \<Rightarrow> s)"

text \<open>
  The loops \<open>for r in range(1, max_row + 1)\<close> of the projection. The value copied was read
  from a cell, so it is bound already and is written as it is. Reading a source cell that
  does not exist creates it without a value; such a cell is not written to the file, and
  the model leaves the source sheet as it is.
\<close>

fun fill_empty :: "sheet \<Rightarrow> nat \<Rightarrow> nat list \<Rightarrow> sheet" where
  "fill_empty tgt col [] = tgt"
| "fill_empty tgt col (r # rs) = fill_empty (put_cell tgt r col PNone) col rs"

fun copy_column :: "sheet \<Rightarrow> nat \<Rightarrow> sheet \<Rightarrow> nat \<Rightarrow> nat list \<Rightarrow> sheet" where
  "copy_column src src_col tgt col [] = tgt"
| "copy_column src src_col tgt col (r # rs) =
     copy_column src src_col (put_cell tgt r col (cell_value src r src_col)) col rs"

text \<open>
  The loop over the tokens (lines 134 to 157 in \<open>save_dict_to_excel_row\<close>, and the same
  text at lines 204 to 227 in \<open>copy_columns_by_references\<close>), with the target sheet and the
  target column pointer as its state.
\<close>

fun project_loop :: "sheet \<Rightarrow> nat \<Rightarrow> token list \<Rightarrow> nat \<Rightarrow> sheet \<Rightarrow> sheet" where
  "project_loop src mr [] tgt_col_idx tgt = tgt"
| "project_loop src mr (tok # toks) tgt_col_idx tgt =
     (if is_blank tok then project_loop src mr toks (tgt_col_idx + 1) tgt
      else
        (case column_index_from_string (upper (strip (token_str tok))) of
           None \<Rightarrow>
             project_loop src mr toks (tgt_col_idx + 1) (fill_empty tgt tgt_col_idx [1 ..< mr + 1])
         | Some src_col_idx \<Rightarrow>
             project_loop src mr toks (tgt_col_idx + 1)
               (copy_column src src_col_idx tgt tgt_col_idx [1 ..< mr + 1])))"

definition project_columns :: "token list \<Rightarrow> sheet \<Rightarrow> sheet" where
  "project_columns column_refs src = project_loop src (max_row src) column_refs 1 []"

text \<open>
  The tail both functions share: delete the sheet titled \<open>converted\<close> if there is one
  (the test compares titles as they are), create a new sheet at the end under the title
  \<open>create_sheet\<close> gives for \<open>converted\<close>, and fill it from the source sheet.
\<close>

definition recreate_converted :: "token list \<Rightarrow> sheet \<Rightarrow> workbook \<Rightarrow> workbook" where
  "recreate_converted column_refs src wb =
     (let kept = (if ''converted'' \<in> set (sheetnames wb)
                  then remove_sheet ''converted'' (sheets wb) else sheets wb);
          title = avoid_duplicate_name (map fst kept) ''converted''
      in wb\<lparr>sheets := kept @ [(title, project_columns column_refs src)]\<rparr>)"

text \<open>
  Selecting the source sheet (lines 182 to 187): the sheet with the given title, or the
  first sheet when no title (or an empty one) is given.
\<close>

definition source_sheet :: "workbook \<Rightarrow> string option \<Rightarrow> error + sheet" where
  "source_sheet wb source_sheet_name =
     (let first_sheet = (case sheets wb of [] \<Rightarrow> Inl IndexError | (n, s) # _ \<Rightarrow> Inr s)
      in case source_sheet_name of
           None \<Rightarrow> first_sheet
         | Some name \<Rightarrow>
             if name = [] then first_sheet
             else (case map_of (sheets wb) name of
                     None \<Rightarrow> Inl (ValueError name)
                   | Some s \<Rightarrow> Inr s))"

text \<open>The function returns the title it asked for, whatever title the new sheet got.\<close>

definition copy_columns_by_references ::
  "xfs \<Rightarrow> string \<Rightarrow> token list \<Rightarrow> string option \<Rightarrow> error + (xfs \<times> string)" where
  "copy_columns_by_references fs file_path column_refs source_sheet_name =
     (case fs file_path of
        None \<Rightarrow> Inl (FileNotFoundError file_path)
      | Some wb \<Rightarrow>
          (case source_sheet wb source_sheet_name of
             Inl e \<Rightarrow> Inl e
           | Inr src \<Rightarrow>
               Inr (save_workbook fs file_path (recreate_converted column_refs src wb),
                    ''converted'')))"

section \<open>Tabular append store\<close>







section \<open>URL result records and the result flattener\<close>

text \<open>
  The dict a pipeline appends for one URL (lines 302, 309, 479, 488, 624, 647 and 661):
  the keys \<open>url\<close>, \<open>file\<close>, \<open>price\<close>, the identifier key (\<open>model\<close> for Amazon and BestBuy,
  \<open>sku\<close> for Samsung) and \<open>status\<close>, in this order.
\<close>

definition result_record ::
  "string \<Rightarrow> string \<Rightarrow> pyval \<Rightarrow> pyval \<Rightarrow> pyval \<Rightarrow> string \<Rightarrow> pydict" where
  "result_record id_key url file price ident status =
     [(''url'', PStr url), (''file'', file), (''price'', price), (id_key, ident),
      (''status'', PStr status)]"

definition ok_record :: "string \<Rightarrow> string \<Rightarrow> string \<Rightarrow> pyval \<Rightarrow> pyval \<Rightarrow> pydict" where
  "ok_record id_key url output_file price ident =
     result_record id_key url (PStr output_file) price ident ''ok''"

definition error_record :: "string \<Rightarrow> string \<Rightarrow> string \<Rightarrow> pydict" where
  "error_record id_key url e = result_record id_key url PNone PNone PNone (''error: '' @ e)"

text \<open>The inner loop \<open>for k, v in item.items()\<close> of the flattening (lines 726 to 728).\<close>

fun flatten_item :: "string \<Rightarrow> nat \<Rightarrow> pydict \<Rightarrow> pydict \<Rightarrow> pydict" where
  "flatten_item site i [] flat = flat"
| "flatten_item site i ((k, v) # item) flat =
     flatten_item site i item (dict_set flat (site @ ''_'' @ str_nat i @ ''_'' @ k) v)"

text \<open>The outer loop \<open>for i, item in enumerate(res, start=1)\<close>.\<close>

fun flatten_site :: "string \<Rightarrow> nat \<Rightarrow> pydict list \<Rightarrow> pydict \<Rightarrow> pydict" where
  "flatten_site site i [] flat = flat"
| "flatten_site site i (item # res) flat =
     flatten_site site (i + 1) res (flatten_item site i item flat)"

text \<open>Lines 722 to 738 of \<open>main\<close>, with the time stamp text as a parameter.\<close>

definition flatten_results :: "string \<Rightarrow> pydict list \<Rightarrow> pydict list \<Rightarrow> pydict list \<Rightarrow> pydict" where
  "flatten_results run_timestamp am_res bb_res sam_res =
     (let flat = dict_set [] ''run_timestamp'' (PStr run_timestamp);
          flat = flatten_site ''amazon'' 1 am_res flat;
          flat = flatten_site ''bestbuy'' 1 bb_res flat
      in flatten_site ''samsung'' 1 sam_res flat)"

text \<open>The keys the spec calls of the form \<open><site>_<index>_<field>\<close>, for two records a site.\<close>

definition site_index_field_keys :: "string list" where
  "site_index_field_keys =
     concat (map (\<lambda>site. concat (map (\<lambda>i. map (\<lambda>f. site @ ''_'' @ str_nat i @ ''_'' @ f)
                [''url'', ''file'', ''price'', ''model'', ''sku'', ''status''])
              [1, 2]))
           [''amazon'', ''bestbuy'', ''samsung''])"

text \<open>The keys of a dict after assignments to the keys \<open>new\<close>, in this order.\<close>

definition add_keys :: "string list \<Rightarrow> string list \<Rightarrow> string list" where
  "add_keys ks new = foldl (\<lambda>ks k. if k \<in> set ks then ks else ks @ [k]) ks new"

text \<open>The keys of the flattened record of a run with two records a site, in order.\<close>

definition flat_keys_2_2_2 :: "string list" where
  "flat_keys_2_2_2 =
     [''run_timestamp'',
      ''amazon_1_url'', ''amazon_1_file'', ''amazon_1_price'', ''amazon_1_model'', ''amazon_1_status'',
      ''amazon_2_url'', ''amazon_2_file'', ''amazon_2_price'', ''amazon_2_model'', ''amazon_2_status'',
      ''bestbuy_1_url'', ''bestbuy_1_file'', ''bestbuy_1_price'', ''bestbuy_1_model'', ''bestbuy_1_status'',
      ''bestbuy_2_url'', ''bestbuy_2_file'', ''bestbuy_2_price'', ''bestbuy_2_model'', ''bestbuy_2_status'',
      ''samsung_1_url'', ''samsung_1_file'', ''samsung_1_price'', ''samsung_1_sku'', ''samsung_1_status'',
      ''samsung_2_url'', ''samsung_2_file'', ''samsung_2_price'', ''samsung_2_sku'', ''samsung_2_status'']"

section \<open>Tables the store keeps and records it can store\<close>











section \<open>Claims about the result flattener\<close>



lemma str_nat_1_2: "str_nat 1 = ''1''" "str_nat 2 = ''2''" "str_nat (Suc 0) = ''1''"
  "str_nat (Suc (Suc 0)) = ''2''"
  by (simp_all add: str_nat.simps)

lemma dict_keys_dict_set:
  "dict_keys (dict_set d k v) = (if k \<in> set (dict_keys d) then dict_keys d else dict_keys d @ [k])"
  by (induction d k v rule: dict_set.induct) (auto simp: dict_keys_def)

lemma add_keys_append: "add_keys ks (xs @ ys) = add_keys (add_keys ks xs) ys"
  by (simp add: add_keys_def)

lemma dict_keys_flatten_item:
  "dict_keys (flatten_item site i item flat) =
     add_keys (dict_keys flat) (map (\<lambda>k. site @ ''_'' @ str_nat i @ ''_'' @ k) (dict_keys item))"
proof (induction site i item flat rule: flatten_item.induct)
  case (1 site i flat)
  then show ?case by (simp add: dict_keys_def add_keys_def)
next
  case (2 site i k v item flat)
  have "dict_keys ((k, v) # item) = k # dict_keys item" by (simp add: dict_keys_def)
  then show ?case
    using 2 by (simp only: flatten_item.simps dict_keys_dict_set add_keys_def list.map foldl_Cons)
qed

lemma dict_keys_records:
  "dict_keys (ok_record id_key u f p m) = [''url'', ''file'', ''price'', id_key, ''status'']"
  "dict_keys (error_record id_key u e) = [''url'', ''file'', ''price'', id_key, ''status'']"
  by (simp_all add: ok_record_def error_record_def result_record_def dict_keys_def)

lemma flatten_two_keys:
  "dict_keys (flatten_site site 1 [r1, r2] flat) =
     add_keys (dict_keys flat)
       (map (\<lambda>k. site @ ''_1_'' @ k) (dict_keys r1) @ map (\<lambda>k. site @ ''_2_'' @ k) (dict_keys r2))"
  by (simp add: dict_keys_flatten_item str_nat_1_2 add_keys_append)


lemma site_keys:
  "(map (\<lambda>k. ''amazon'' @ ''_1_'' @ k) [''url'', ''file'', ''price'', ''model'', ''status''] @ map (\<lambda>k. ''amazon'' @ ''_2_'' @ k) [''url'', ''file'', ''price'', ''model'', ''status'']) = [''amazon_1_url'', ''amazon_1_file'', ''amazon_1_price'', ''amazon_1_model'', ''amazon_1_status'', ''amazon_2_url'', ''amazon_2_file'', ''amazon_2_price'', ''amazon_2_model'', ''amazon_2_status'']"
  "(map (\<lambda>k. ''bestbuy'' @ ''_1_'' @ k) [''url'', ''file'', ''price'', ''model'', ''status''] @ map (\<lambda>k. ''bestbuy'' @ ''_2_'' @ k) [''url'', ''file'', ''price'', ''model'', ''status'']) = [''bestbuy_1_url'', ''bestbuy_1_file'', ''bestbuy_1_price'', ''bestbuy_1_model'', ''bestbuy_1_status'', ''bestbuy_2_url'', ''bestbuy_2_file'', ''bestbuy_2_price'', ''bestbuy_2_model'', ''bestbuy_2_status'']"
  "(map (\<lambda>k. ''samsung'' @ ''_1_'' @ k) [''url'', ''file'', ''price'', ''sku'', ''status''] @ map (\<lambda>k. ''samsung'' @ ''_2_'' @ k) [''url'', ''file'', ''price'', ''sku'', ''status'']) = [''samsung_1_url'', ''samsung_1_file'', ''samsung_1_price'', ''samsung_1_sku'', ''samsung_1_status'', ''samsung_2_url'', ''samsung_2_file'', ''samsung_2_price'', ''samsung_2_sku'', ''samsung_2_status'']"
  by simp_all

lemma add_keys_amazon:
  "add_keys [''run_timestamp''] [''amazon_1_url'', ''amazon_1_file'', ''amazon_1_price'', ''amazon_1_model'', ''amazon_1_status'', ''amazon_2_url'', ''amazon_2_file'', ''amazon_2_price'', ''amazon_2_model'', ''amazon_2_status''] = [''run_timestamp'', ''amazon_1_url'', ''amazon_1_file'', ''amazon_1_price'', ''amazon_1_model'', ''amazon_1_status'', ''amazon_2_url'', ''amazon_2_file'', ''amazon_2_price'', ''amazon_2_model'', ''amazon_2_status'']"
  by code_simp

lemma add_keys_bestbuy:
  "add_keys [''run_timestamp'', ''amazon_1_url'', ''amazon_1_file'', ''amazon_1_price'', ''amazon_1_model'', ''amazon_1_status'', ''amazon_2_url'', ''amazon_2_file'', ''amazon_2_price'', ''amazon_2_model'', ''amazon_2_status''] [''bestbuy_1_url'', ''bestbuy_1_file'', ''bestbuy_1_price'', ''bestbuy_1_model'', ''bestbuy_1_status'', ''bestbuy_2_url'', ''bestbuy_2_file'', ''bestbuy_2_price'', ''bestbuy_2_model'', ''bestbuy_2_status''] = [''run_timestamp'', ''amazon_1_url'', ''amazon_1_file'', ''amazon_1_price'', ''amazon_1_model'', ''amazon_1_status'', ''amazon_2_url'', ''amazon_2_file'', ''amazon_2_price'', ''amazon_2_model'', ''amazon_2_status'', ''bestbuy_1_url'', ''bestbuy_1_file'', ''bestbuy_1_price'', ''bestbuy_1_model'', ''bestbuy_1_status'', ''bestbuy_2_url'', ''bestbuy_2_file'', ''bestbuy_2_price'', ''bestbuy_2_model'', ''bestbuy_2_status'']"
  by code_simp

lemma add_keys_samsung:
  "add_keys [''run_timestamp'', ''amazon_1_url'', ''amazon_1_file'', ''amazon_1_price'', ''amazon_1_model'', ''amazon_1_status'', ''amazon_2_url'', ''amazon_2_file'', ''amazon_2_price'', ''amazon_2_model'', ''amazon_2_status'', ''bestbuy_1_url'', ''bestbuy_1_file'', ''bestbuy_1_price'', ''bestbuy_1_model'', ''bestbuy_1_status'', ''bestbuy_2_url'', ''bestbuy_2_file'', ''bestbuy_2_price'', ''bestbuy_2_model'', ''bestbuy_2_status''] [''samsung_1_url'', ''samsung_1_file'', ''samsung_1_price'', ''samsung_1_sku'', ''samsung_1_status'', ''samsung_2_url'', ''samsung_2_file'', ''samsung_2_price'', ''samsung_2_sku'', ''samsung_2_status''] = flat_keys_2_2_2"
  by code_simp


lemma count_flat_keys:
  "length (filter (\<lambda>k. k \<noteq> ''run_timestamp'') flat_keys_2_2_2) = 30"
  "list_all (\<lambda>k. k \<in> set site_index_field_keys) (filter (\<lambda>k. k \<noteq> ''run_timestamp'') flat_keys_2_2_2)"
  "distinct flat_keys_2_2_2"
proof -
  have sif: "site_index_field_keys =
      concat (map (\<lambda>site. concat (map (\<lambda>i. map (\<lambda>f. site @ ''_'' @ i @ ''_'' @ f)
                [''url'', ''file'', ''price'', ''model'', ''sku'', ''status''])
              [''1'', ''2'']))
           [''amazon'', ''bestbuy'', ''samsung''])"
    by (simp add: site_index_field_keys_def str_nat_1_2)
  show "length (filter (\<lambda>k. k \<noteq> ''run_timestamp'') flat_keys_2_2_2) = 30" by code_simp
  show "list_all (\<lambda>k. k \<in> set site_index_field_keys)
          (filter (\<lambda>k. k \<noteq> ''run_timestamp'') flat_keys_2_2_2)"
    unfolding sif by code_simp
  show "distinct flat_keys_2_2_2" by code_simp
qed

lemma flatten_results_keys:
  assumes "dict_keys a1 = [''url'', ''file'', ''price'', ''model'', ''status'']"
    and "dict_keys a2 = [''url'', ''file'', ''price'', ''model'', ''status'']"
    and "dict_keys b1 = [''url'', ''file'', ''price'', ''model'', ''status'']"
    and "dict_keys b2 = [''url'', ''file'', ''price'', ''model'', ''status'']"
    and "dict_keys s1 = [''url'', ''file'', ''price'', ''sku'', ''status'']"
    and "dict_keys s2 = [''url'', ''file'', ''price'', ''sku'', ''status'']"
  shows "dict_keys (flatten_results ts [a1, a2] [b1, b2] [s1, s2]) = flat_keys_2_2_2"
proof -
  have "dict_keys (dict_set [] ''run_timestamp'' (PStr ts)) = [''run_timestamp'']"
    by (simp add: dict_keys_def)
  then show ?thesis
    unfolding flatten_results_def Let_def flatten_two_keys assms
    by (simp only: site_keys add_keys_amazon add_keys_bestbuy add_keys_samsung)
qed

text \<open>
  C6, as the code has it. Every URL result record has five fields, so when each of the
  three pipelines produces one ok record and one error record (in either order), the
  flattened run record has \<open>run_timestamp\<close> and exactly 30 other keys, five for each of
  the six records, pairwise distinct and each of the form \<open><site>_<index>_<field>\<close>.
\<close>

theorem flattened_run_record_has_thirty_keys:
  assumes "am = [ok_record ''model'' u1 f1 p1 m1, error_record ''model'' u2 e2] \<or>
           am = [error_record ''model'' u2 e2, ok_record ''model'' u1 f1 p1 m1]"
    and "bb = [ok_record ''model'' u3 f3 p3 m3, error_record ''model'' u4 e4] \<or>
         bb = [error_record ''model'' u4 e4, ok_record ''model'' u3 f3 p3 m3]"
    and "sam = [ok_record ''sku'' u5 f5 p5 m5, error_record ''sku'' u6 e6] \<or>
         sam = [error_record ''sku'' u6 e6, ok_record ''sku'' u5 f5 p5 m5]"
  shows "dict_keys (flatten_results ts am bb sam) = flat_keys_2_2_2 \<and>
         length (filter (\<lambda>k. k \<noteq> ''run_timestamp'') (dict_keys (flatten_results ts am bb sam))) = 30 \<and>
         list_all (\<lambda>k. k \<in> set site_index_field_keys)
           (filter (\<lambda>k. k \<noteq> ''run_timestamp'') (dict_keys (flatten_results ts am bb sam))) \<and>
         distinct (dict_keys (flatten_results ts am bb sam))"
proof -
  from assms(1) obtain a1 a2 where a: "am = [a1, a2]"
    "dict_keys a1 = [''url'', ''file'', ''price'', ''model'', ''status'']"
    "dict_keys a2 = [''url'', ''file'', ''price'', ''model'', ''status'']"
    by (auto simp: dict_keys_records)
  from assms(2) obtain b1 b2 where b: "bb = [b1, b2]"
    "dict_keys b1 = [''url'', ''file'', ''price'', ''model'', ''status'']"
    "dict_keys b2 = [''url'', ''file'', ''price'', ''model'', ''status'']"
    by (auto simp: dict_keys_records)
  from assms(3) obtain s1 s2 where c: "sam = [s1, s2]"
    "dict_keys s1 = [''url'', ''file'', ''price'', ''sku'', ''status'']"
    "dict_keys s2 = [''url'', ''file'', ''price'', ''sku'', ''status'']"
    by (auto simp: dict_keys_records)
  have "dict_keys (flatten_results ts am bb sam) = flat_keys_2_2_2"
    unfolding a(1) b(1) c(1) using a(2,3) b(2,3) c(2,3) by (rule flatten_results_keys)
  then show ?thesis by (simp only: count_flat_keys simp_thms)
qed


theorem flattened_run_record_has_thirty_keys_witness:
  "(let am = [ok_record ''model'' ''https://a.example/1'' ''outputs/amazon_1_a.html'' (PStr ''$42.99'') (PStr ''SM-1''),
              error_record ''model'' ''https://a.example/2'' ''Timeout''];
        bb = [error_record ''model'' ''https://b.example/2'' ''Timeout'',
              ok_record ''model'' ''https://b.example/1'' ''outputs/bestbuy_2_b.html'' (PStr ''$41.99'') (PStr ''SM-1'')];
        sam = [ok_record ''sku'' ''https://s.example/sku-sm-1'' ''outputs/samsung_1_s.html'' (PStr ''$40.99'') (PStr ''sm-1''),
               error_record ''sku'' ''https://s.example/2'' ''Timeout'']
    in dict_keys (flatten_results ''2025-01-01T00:00:00Z'' am bb sam) = flat_keys_2_2_2 \<and>
       length (filter (\<lambda>k. k \<noteq> ''run_timestamp'')
                 (dict_keys (flatten_results ''2025-01-01T00:00:00Z'' am bb sam))) = 30)"
proof -
  note t = flattened_run_record_has_thirty_keys
    [where am = "[ok_record ''model'' ''https://a.example/1'' ''outputs/amazon_1_a.html'' (PStr ''$42.99'') (PStr ''SM-1''),
              error_record ''model'' ''https://a.example/2'' ''Timeout'']"
       and bb = "[error_record ''model'' ''https://b.example/2'' ''Timeout'',
              ok_record ''model'' ''https://b.example/1'' ''outputs/bestbuy_2_b.html'' (PStr ''$41.99'') (PStr ''SM-1'')]"
       and sam = "[ok_record ''sku'' ''https://s.example/sku-sm-1'' ''outputs/samsung_1_s.html'' (PStr ''$40.99'') (PStr ''sm-1''),
               error_record ''sku'' ''https://s.example/2'' ''Timeout'']"
       and ts = "''2025-01-01T00:00:00Z''"
       and ?u1.0 = "''https://a.example/1''" and ?f1.0 = "''outputs/amazon_1_a.html''"
       and ?p1.0 = "PStr ''$42.99''" and ?m1.0 = "PStr ''SM-1''"
       and ?u2.0 = "''https://a.example/2''" and ?e2.0 = "''Timeout''"
       and ?u3.0 = "''https://b.example/1''" and ?f3.0 = "''outputs/bestbuy_2_b.html''"
       and ?p3.0 = "PStr ''$41.99''" and ?m3.0 = "PStr ''SM-1''"
       and ?u4.0 = "''https://b.example/2''" and ?e4.0 = "''Timeout''"
       and ?u5.0 = "''https://s.example/sku-sm-1''" and ?f5.0 = "''outputs/samsung_1_s.html''"
       and ?p5.0 = "PStr ''$40.99''" and ?m5.0 = "PStr ''sm-1''"
       and ?u6.0 = "''https://s.example/2''" and ?e6.0 = "''Timeout''",
     OF disjI1 [OF refl] disjI2 [OF refl] disjI1 [OF refl]]
  show ?thesis unfolding Let_def using t by blast
qed

text \<open>
  The claim as the spec states it, six keys other than \<open>run_timestamp\<close>, fails on a run
  with one ok record and one error record a site.
\<close>

theorem flattened_run_record_six_keys_counterexample:
  "length (filter (\<lambda>k. k \<noteq> ''run_timestamp'')
     (dict_keys (flatten_results ''2025-01-01T00:00:00Z''
         [ok_record ''model'' ''https://a.example/1'' ''outputs/amazon_1_a.html'' (PStr ''$42.99'') (PStr ''SM-1''),
          error_record ''model'' ''https://a.example/2'' ''Timeout'']
         [ok_record ''model'' ''https://b.example/1'' ''outputs/bestbuy_1_b.html'' (PStr ''$41.99'') (PStr ''SM-1''),
          error_record ''model'' ''https://b.example/2'' ''Timeout'']
         [ok_record ''sku'' ''https://s.example/sku-sm-1'' ''outputs/samsung_1_s.html'' (PStr ''$40.99'') (PStr ''sm-1''),
          error_record ''sku'' ''https://s.example/2'' ''Timeout'']))) \<noteq> 6"
  by code_simp

section \<open>Properties of cells and saved sheets\<close>

lemma strip_none_simps [simp]:
  "strip_none [] = []"
  "strip_none (xs @ [x]) = (if x = PNone then strip_none xs else xs @ [x])"
  by (simp_all add: strip_none_def)


lemma strip_none_last: "strip_none row \<noteq> [] \<Longrightarrow> last (strip_none row) \<noteq> PNone"
  by (induction row rule: rev_induct) (simp_all split: if_splits)






lemma blank_simps [simp]:
  "blank PNone = PNone" "blank (PStr []) = PNone" "s \<noteq> [] \<Longrightarrow> blank (PStr s) = PStr s"
  "blank (blank v) = blank v"
  by (simp_all add: blank_def)








section \<open>Properties of the tabular append store\<close>

lemma length_pad: "length (pad n row) = max n (length row)"
  by (simp add: pad_def)









lemma max_column_snoc: "max_column (ws @ [r]) = max (max_column ws) (length r)"
  by (induction ws) (simp_all add: max_column_def max.assoc max.commute)














lemma keys_in_headers:
  "k \<in> set (dict_keys R) \<Longrightarrow>
   PStr k \<in> set (H @ map PStr (filter (\<lambda>k. PStr k \<notin> set H) (dict_keys R)))"
  by auto






section \<open>Properties of workbooks\<close>





















section \<open>Claims about the tabular append store\<close>




subsection \<open>Two appends in sequence\<close>






end
